theory Spec2Isabelle
  imports Main "HOL-Library.Word"
begin

unbundle bit_operations_syntax

section \<open>The PaX flag control plane of sys/hardenedbsd/hbsd_pax_common.c\<close>

text \<open>
  A shallow embedding of \<^verbatim>\<open>hbsd_pax_common.c\<close>. Kernel memory is an explicit store:
  a \<^verbatim>\<open>struct thread *\<close> and a \<^verbatim>\<open>struct proc *\<close> are addresses, the store maps each
  address to the fields this file reads and writes. A failed \<^verbatim>\<open>KASSERT\<close> is the
  value \<open>Inl (Panic msg)\<close>: the file refuses to build without \<^verbatim>\<open>INVARIANTS\<close>
  (lines 63-67, \<^verbatim>\<open>PAX_INSECURE_MODE\<close> apart), so the assertions are part of the
  program. \<^verbatim>\<open>PROC_LOCK\<close>/\<^verbatim>\<open>PROC_UNLOCK\<close> and the \<^verbatim>\<open>CTR2\<close>/\<^verbatim>\<open>CTR3\<close> trace
  points have no effect on a sequential run and are left out.
\<close>

subsection \<open>Types and constants\<close>

text \<open>
  \<^verbatim>\<open>pax_flag_t\<close> is printed with \<^verbatim>\<open>%x\<close> (lines 286-346): an unsigned 32-bit mask.
  \<^verbatim>\<open>pax_state_t\<close> is a 32-bit value as well; the validators only compare it with
  the enumeration's members.
\<close>

type_synonym pax_flag_t = "32 word"
type_synonym pax_state_t = "32 word"
type_synonym tid = nat
type_synonym pid = nat
type_synonym prison_ptr = nat

text \<open>
  The values of the macros of \<^verbatim>\<open>sys/pax.h\<close> and \<^verbatim>\<open>sys/errno.h\<close> are not part of
  this file. They are parameters of the model: every theorem holds for each choice
  of them.
\<close>

record macros =
  PAX_NOTE_ALL :: pax_flag_t
  PAX_NOTE_ALL_ENABLED :: pax_flag_t
  PAX_NOTE_ALL_DISABLED :: pax_flag_t
  PAX_NOTE_PREFER_ACL :: pax_flag_t
  ENOEXEC :: int
  ENOENT :: int

text \<open>The kernel options (\<^verbatim>\<open>opt_pax.h\<close> and the kernel configuration) this file tests with \<^verbatim>\<open>#ifdef\<close>.\<close>

record config =
  PAX_CONTROL_ACL :: bool
  PAX_CONTROL_EXTATTR :: bool
  PAX_CONTROL_ACL_OVERRIDE_SUPPORT :: bool
  PAX_ASLR :: bool
  MAP_32BIT :: bool
  PAX_NOEXEC :: bool
  PAX_SEGVGUARD :: bool
  PAX_HARDENING :: bool
  HBSD_DEBUG :: bool
  COMPAT_FREEBSD32 :: bool
  PAX_JAIL_SUPPORT :: bool

text \<open>
  Modelled from the spec: the members of the Feature State enumerations
  (\<^verbatim>\<open>PAX_FEATURE_*\<close>, \<^verbatim>\<open>PAX_FEATURE_SIMPLE_*\<close> of \<^verbatim>\<open>sys/pax.h\<close>) are missing from the
  sources; the spec gives the 4-state set as \<open>{0,1,2,3}\<close> in the order disabled,
  opt-in, opt-out, force-enabled, and the 2-state set as disabled, enabled. The
  designated initialisers of \<^verbatim>\<open>pax_status_str\<close> (lines 98-108) use the same order.
\<close>

definition PAX_FEATURE_DISABLED :: pax_state_t where
  "PAX_FEATURE_DISABLED = 0"

definition PAX_FEATURE_OPTIN :: pax_state_t where
  "PAX_FEATURE_OPTIN = 1"

definition PAX_FEATURE_OPTOUT :: pax_state_t where
  "PAX_FEATURE_OPTOUT = 2"

definition PAX_FEATURE_FORCE_ENABLED :: pax_state_t where
  "PAX_FEATURE_FORCE_ENABLED = 3"

definition PAX_FEATURE_SIMPLE_DISABLED :: pax_state_t where
  "PAX_FEATURE_SIMPLE_DISABLED = 0"

definition PAX_FEATURE_SIMPLE_ENABLED :: pax_state_t where
  "PAX_FEATURE_SIMPLE_ENABLED = 1"

subsection \<open>Kernel memory\<close>

record thread =
  td_proc :: pid
  td_pax :: pax_flag_t

record proc =
  p_pax :: pax_flag_t
  p_threads :: "tid list"

text \<open>
  \<open>klog\<close> and \<open>ulog\<close> record the calls of \<^verbatim>\<open>pax_log_internal_imgp\<close> and
  \<^verbatim>\<open>pax_ulog_internal\<close> (format string and arguments), oldest first.
\<close>

type_synonym log_line = "string \<times> pax_flag_t list"

record kernel =
  curthread :: tid
  threads :: "tid \<Rightarrow> thread"
  procs :: "pid \<Rightarrow> proc"
  klog :: "log_line list"
  ulog :: "log_line list"

record image_params =
  req_acl_flags :: pax_flag_t
  req_extattr_flags :: pax_flag_t
  proc :: pid

datatype panic = Panic string

subsection \<open>Flag Validator (lines 213-234)\<close>

definition pax_validate_flags :: "macros \<Rightarrow> pax_flag_t \<Rightarrow> int" where
  "pax_validate_flags K flags =
     (if (flags AND NOT (PAX_NOTE_ALL K)) \<noteq> 0 then 1 else 0)"

definition pax_check_conflicting_modes :: "macros \<Rightarrow> pax_flag_t \<Rightarrow> int" where
  "pax_check_conflicting_modes K mode =
     (if ((mode AND PAX_NOTE_ALL_ENABLED K) AND
          drop_bit 1 (mode AND PAX_NOTE_ALL_DISABLED K)) \<noteq> 0
      then 1 else 0)"

subsection \<open>Request Resolver (lines 236-256)\<close>

definition pax_get_requested_flags :: "config \<Rightarrow> macros \<Rightarrow> image_params \<Rightarrow> pax_flag_t" where
  "pax_get_requested_flags cfg K imgp =
     (if PAX_CONTROL_ACL cfg \<and> PAX_CONTROL_EXTATTR cfg then
        (let req_flags =
               (if (req_acl_flags imgp AND PAX_NOTE_PREFER_ACL K) \<noteq> 0
                then req_acl_flags imgp else req_extattr_flags imgp)
         in if req_flags = 0 \<and> req_acl_flags imgp \<noteq> 0
            then req_acl_flags imgp else req_flags)
      else if PAX_CONTROL_EXTATTR cfg then
        (if req_extattr_flags imgp \<noteq> 0 then req_extattr_flags imgp else 0)
      else if PAX_CONTROL_ACL cfg then
        (if req_acl_flags imgp \<noteq> 0 then req_acl_flags imgp else 0)
      else 0)"

subsection \<open>Feature State validators (lines 468-504)\<close>

text \<open>
  The C functions take a pointer; the model returns the function's result together
  with the value left in \<^verbatim>\<open>*state\<close>.
\<close>

definition pax_feature_validate_state :: "pax_state_t \<Rightarrow> bool \<times> pax_state_t" where
  "pax_feature_validate_state state =
     (if state = PAX_FEATURE_DISABLED \<or> state = PAX_FEATURE_OPTIN \<or>
         state = PAX_FEATURE_OPTOUT \<or> state = PAX_FEATURE_FORCE_ENABLED
      then (True, state)
      else (False, PAX_FEATURE_FORCE_ENABLED))"

definition pax_feature_simple_validate_state :: "pax_state_t \<Rightarrow> bool \<times> pax_state_t" where
  "pax_feature_simple_validate_state state =
     (if state = PAX_FEATURE_SIMPLE_DISABLED \<or> state = PAX_FEATURE_SIMPLE_ENABLED
      then (True, state)
      else (False, PAX_FEATURE_SIMPLE_ENABLED))"

subsection \<open>Flag Storage (lines 142-208)\<close>

text \<open>
  The body of the \<^verbatim>\<open>HBSD_DEBUG\<close> loops: \<^verbatim>\<open>FOREACH_THREAD_IN_PROC\<close> walks the list
  \<open>p_threads\<close> and the first failed assertion panics.
\<close>

fun pax_get_flags_debug :: "kernel \<Rightarrow> pid \<Rightarrow> tid list \<Rightarrow> panic option" where
  "pax_get_flags_debug s p [] = None"
| "pax_get_flags_debug s p (td # tds) =
     (if td_pax (threads s td) \<noteq> p_pax (procs s p)
      then Some (Panic ''pax_get_flags: td->td_pax != p->p_pax'')
      else pax_get_flags_debug s p tds)"

definition pax_get_flags :: "config \<Rightarrow> pid \<Rightarrow> kernel \<Rightarrow> panic + pax_flag_t" where
  "pax_get_flags cfg p s =
     (if p \<noteq> td_proc (threads s (curthread s))
      then Inl (Panic ''pax_get_flags: p != curthread->td_proc'')
      else case (if HBSD_DEBUG cfg
                 then pax_get_flags_debug s p (p_threads (procs s p)) else None) of
             Some e \<Rightarrow> Inl e
           | None \<Rightarrow> Inr (p_pax (procs s p)))"

fun pax_get_flags_td_debug :: "kernel \<Rightarrow> pid \<Rightarrow> tid list \<Rightarrow> panic option" where
  "pax_get_flags_td_debug s p [] = None"
| "pax_get_flags_td_debug s p (td0 # tds) =
     (if td_proc (threads s td0) \<noteq> p
      then Some (Panic ''pax_get_flags_td: td0->td_proc != p'')
      else if td_pax (threads s td0) \<noteq> p_pax (procs s p)
      then Some (Panic ''pax_get_flags_td: td0->td_pax != p->p_pax'')
      else pax_get_flags_td_debug s p tds)"

definition pax_get_flags_td :: "config \<Rightarrow> tid \<Rightarrow> kernel \<Rightarrow> panic + pax_flag_t" where
  "pax_get_flags_td cfg td s =
     (if td \<noteq> curthread s
      then Inl (Panic ''pax_get_flags_td: td != curthread'')
      else case (if HBSD_DEBUG cfg
                 then (let p = td_proc (threads s td)
                       in pax_get_flags_td_debug s p (p_threads (procs s p)))
                 else None) of
             Some e \<Rightarrow> Inl e
           | None \<Rightarrow> Inr (td_pax (threads s td)))"

definition pax_set_flags_td :: "tid \<Rightarrow> pax_flag_t \<Rightarrow> kernel \<Rightarrow> kernel" where
  "pax_set_flags_td td flags s =
     s\<lparr>threads := (threads s)(td := (threads s td)\<lparr>td_pax := flags\<rparr>)\<rparr>"

text \<open>The loop of \<^verbatim>\<open>pax_set_flags\<close> (lines 197-199).\<close>

fun pax_set_flags_loop :: "tid list \<Rightarrow> pax_flag_t \<Rightarrow> kernel \<Rightarrow> kernel" where
  "pax_set_flags_loop [] flags s = s"
| "pax_set_flags_loop (td0 # tds) flags s =
     pax_set_flags_loop tds flags (pax_set_flags_td td0 flags s)"

definition pax_set_flags :: "pid \<Rightarrow> tid \<Rightarrow> pax_flag_t \<Rightarrow> kernel \<Rightarrow> panic + kernel" where
  "pax_set_flags p td flags s =
     (if td \<noteq> curthread s
      then Inl (Panic ''pax_set_flags: td != curthread'')
      else if td_proc (threads s td) \<noteq> p
      then Inl (Panic ''pax_set_flags: td->td_proc != p'')
      else Inr (pax_set_flags_loop (p_threads (procs s p)) flags
                  (s\<lparr>procs := (procs s)(p := (procs s p)\<lparr>p_pax := flags\<rparr>)\<rparr>)))"

subsection \<open>Collaborators of the Mitigation Aggregator\<close>

text \<open>
  Modelled from the spec: the flag-setup hooks of the mitigation engines
  (\<^verbatim>\<open>pax_aslr_setup_flags\<close> and the others) are in other files of the kernel. The
  spec gives their contract as \<open>compute_flags(image_record, thread, requested_mode)\<close>,
  a pure function returning a bitmask. They are parameters of the model; since
  \<^verbatim>\<open>td\<close> is a pointer, a hook may also read the kernel memory it is called in.
\<close>

record hooks =
  pax_aslr_setup_flags :: "kernel \<Rightarrow> image_params \<Rightarrow> tid \<Rightarrow> pax_flag_t \<Rightarrow> pax_flag_t"
  pax_disallow_map32bit_setup_flags :: "kernel \<Rightarrow> image_params \<Rightarrow> tid \<Rightarrow> pax_flag_t \<Rightarrow> pax_flag_t"
  pax_noexec_setup_flags :: "kernel \<Rightarrow> image_params \<Rightarrow> tid \<Rightarrow> pax_flag_t \<Rightarrow> pax_flag_t"
  pax_segvguard_setup_flags :: "kernel \<Rightarrow> image_params \<Rightarrow> tid \<Rightarrow> pax_flag_t \<Rightarrow> pax_flag_t"
  pax_hardening_setup_flags :: "kernel \<Rightarrow> image_params \<Rightarrow> tid \<Rightarrow> pax_flag_t \<Rightarrow> pax_flag_t"

text \<open>
  Modelled from the spec: the logging collaborators \<^verbatim>\<open>pax_log_internal_imgp\<close> and
  \<^verbatim>\<open>pax_ulog_internal\<close> are in another file; the spec gives them as
  \<open>log_kernel(context, level, format, args)\<close> and \<open>log_user(format, args)\<close>,
  fire-and-forget. A call appends its format and arguments to the kernel log,
  respectively to the user's log. The level is \<^verbatim>\<open>PAX_LOG_DEFAULT\<close> at every call.
\<close>

definition pax_log_internal_imgp :: "image_params \<Rightarrow> string \<Rightarrow> pax_flag_t list \<Rightarrow> kernel \<Rightarrow> kernel" where
  "pax_log_internal_imgp imgp fmt args s = s\<lparr>klog := klog s @ [(fmt, args)]\<rparr>"

definition pax_ulog_internal :: "string \<Rightarrow> pax_flag_t list \<Rightarrow> kernel \<Rightarrow> kernel" where
  "pax_ulog_internal fmt args s = s\<lparr>ulog := ulog s @ [(fmt, args)]\<rparr>"

definition newline :: string where
  "newline = [CHR 0x0A]"

subsection \<open>Mitigation Aggregator: \<^verbatim>\<open>pax_elf\<close> (lines 267-371)\<close>

text \<open>
  Lines 272-278: with ACL override support, whether the thread's committed mask
  carries the marker (then \<^verbatim>\<open>pax_elf\<close> returns 0 at once).
\<close>

definition pax_elf_acl_override :: "config \<Rightarrow> macros \<Rightarrow> tid \<Rightarrow> kernel \<Rightarrow> panic + bool" where
  "pax_elf_acl_override cfg K td s =
     (if PAX_CONTROL_ACL cfg \<and> PAX_CONTROL_ACL_OVERRIDE_SUPPORT cfg then
        (case pax_get_flags_td cfg td s of
           Inl e \<Rightarrow> Inl e
         | Inr flags \<Rightarrow>
             Inr ((flags AND PAX_NOTE_PREFER_ACL K) = PAX_NOTE_PREFER_ACL K))
      else Inr False)"

text \<open>Lines 282 and 303-320: the accumulator, each compiled-in hook OR-ed into it.\<close>

definition pax_elf_setup_flags ::
  "config \<Rightarrow> hooks \<Rightarrow> kernel \<Rightarrow> image_params \<Rightarrow> tid \<Rightarrow> pax_flag_t \<Rightarrow> pax_flag_t" where
  "pax_elf_setup_flags cfg H s imgp td mode =
     (let flags = 0;
          flags = (if PAX_ASLR cfg
                   then flags OR pax_aslr_setup_flags H s imgp td mode else flags);
          flags = (if PAX_ASLR cfg \<and> MAP_32BIT cfg
                   then flags OR pax_disallow_map32bit_setup_flags H s imgp td mode else flags);
          flags = (if PAX_NOEXEC cfg
                   then flags OR pax_noexec_setup_flags H s imgp td mode else flags);
          flags = (if PAX_SEGVGUARD cfg
                   then flags OR pax_segvguard_setup_flags H s imgp td mode else flags);
          flags = (if PAX_HARDENING cfg
                   then flags OR pax_hardening_setup_flags H s imgp td mode else flags)
      in flags)"

text \<open>Lines 351-358: the marker of the request re-applied to the accumulated flags.\<close>

definition pax_elf_prefer_acl :: "config \<Rightarrow> macros \<Rightarrow> pax_flag_t \<Rightarrow> pax_flag_t \<Rightarrow> pax_flag_t" where
  "pax_elf_prefer_acl cfg K mode flags =
     (if PAX_CONTROL_ACL cfg \<and> PAX_CONTROL_ACL_OVERRIDE_SUPPORT cfg then
        (if (mode AND PAX_NOTE_PREFER_ACL K) = PAX_NOTE_PREFER_ACL K
         then flags OR PAX_NOTE_PREFER_ACL K
         else flags AND NOT (PAX_NOTE_PREFER_ACL K))
      else flags)"

text \<open>The rejections of \<^verbatim>\<open>pax_elf\<close>: both log calls, then \<^verbatim>\<open>return (ENOEXEC)\<close>.\<close>

definition pax_elf_reject ::
  "macros \<Rightarrow> image_params \<Rightarrow> string \<Rightarrow> pax_flag_t \<Rightarrow> kernel \<Rightarrow> panic + (int \<times> kernel)" where
  "pax_elf_reject K imgp fmt v s =
     Inr (ENOEXEC K,
          pax_ulog_internal (fmt @ newline) [v] (pax_log_internal_imgp imgp fmt [v] s))"

definition pax_elf ::
  "config \<Rightarrow> macros \<Rightarrow> hooks \<Rightarrow> tid \<Rightarrow> image_params \<Rightarrow> kernel \<Rightarrow> panic + (int \<times> kernel)" where
  "pax_elf cfg K H td imgp s =
     (case pax_elf_acl_override cfg K td s of
        Inl e \<Rightarrow> Inl e
      | Inr True \<Rightarrow> Inr (0, s)
      | Inr False \<Rightarrow>
          (let mode = pax_get_requested_flags cfg K imgp in
           if pax_validate_flags K mode \<noteq> 0 then
             pax_elf_reject K imgp ''unknown paxflags: %x'' mode s
           else if pax_check_conflicting_modes K mode \<noteq> 0 then
             pax_elf_reject K imgp ''inconsistent paxflags: %x'' mode s
           else
             (let flags = pax_elf_setup_flags cfg H s imgp td mode in
              if pax_validate_flags K flags \<noteq> 0 then
                pax_elf_reject K imgp ''unknown paxflags after the setup: %x'' flags s
              else if pax_check_conflicting_modes K flags \<noteq> 0 then
                pax_elf_reject K imgp ''inconsistent paxflags after the setup: %x'' flags s
              else
                (let flags = pax_elf_prefer_acl cfg K mode flags in
                 case pax_set_flags (proc imgp) td flags s of
                   Inl e \<Rightarrow> Inl e
                 | Inr s' \<Rightarrow>
                     Inr (0,
                          if mode \<noteq> 0
                          then pax_log_internal_imgp imgp
                                 ''the process started with non-default hardening settings'' [] s'
                          else s')))))"

subsection \<open>Jail Policy Initializer: \<^verbatim>\<open>pax_init_prison\<close> (lines 400-448)\<close>

text \<open>
  Modelled from the spec: the per-context initializers of the mitigation engines
  are in other files; the spec gives them as
  \<open>init_context(containment_context, creation_params) -> success|failure\<close>, each seeding
  its own fields of the prison. They are parameters of the model: an initializer
  takes the prison's address, the parameter list and the prisons' memory \<open>'k\<close>, and
  returns its error code with the memory it leaves.
\<close>

record ('o, 'k) prison_inits =
  pax_aslr_init_prison :: "prison_ptr \<Rightarrow> 'o \<Rightarrow> 'k \<Rightarrow> int \<times> 'k"
  pax_hardening_init_prison :: "prison_ptr \<Rightarrow> 'o \<Rightarrow> 'k \<Rightarrow> int \<times> 'k"
  pax_noexec_init_prison :: "prison_ptr \<Rightarrow> 'o \<Rightarrow> 'k \<Rightarrow> int \<times> 'k"
  pax_segvguard_init_prison :: "prison_ptr \<Rightarrow> 'o \<Rightarrow> 'k \<Rightarrow> int \<times> 'k"
  pax_aslr_init_prison32 :: "prison_ptr \<Rightarrow> 'o \<Rightarrow> 'k \<Rightarrow> int \<times> 'k"
  pax_log_init_prison :: "prison_ptr \<Rightarrow> 'o \<Rightarrow> 'k \<Rightarrow> int \<times> 'k"

text \<open>The address of the root prison, \<^verbatim>\<open>&prison0\<close>.\<close>

definition prison0 :: prison_ptr where
  "prison0 = 0"

text \<open>The label \<^verbatim>\<open>out\<close> (lines 443-447): the assertion, then \<^verbatim>\<open>return (ret)\<close>.\<close>

definition pax_init_prison_out :: "prison_ptr \<Rightarrow> bool \<Rightarrow> 'k \<Rightarrow> panic + (bool \<times> 'k)" where
  "pax_init_prison_out pr ret k =
     (if (pr = prison0 \<and> ret = True) \<or> pr \<noteq> prison0
      then Inr (ret, k)
      else Inl (Panic ''Unexpected error during prison0 initialization.''))"

definition pax_init_prison ::
  "config \<Rightarrow> ('o, 'k) prison_inits \<Rightarrow> prison_ptr \<Rightarrow> 'o \<Rightarrow> 'k \<Rightarrow> panic + (bool \<times> 'k)" where
  "pax_init_prison cfg I pr opts k =
     (case pax_aslr_init_prison I pr opts k of (e1, k1) \<Rightarrow>
      if e1 \<noteq> 0 then pax_init_prison_out pr False k1 else
     (case pax_hardening_init_prison I pr opts k1 of (e2, k2) \<Rightarrow>
      if e2 \<noteq> 0 then pax_init_prison_out pr False k2 else
     (case pax_noexec_init_prison I pr opts k2 of (e3, k3) \<Rightarrow>
      if e3 \<noteq> 0 then pax_init_prison_out pr False k3 else
     (case pax_segvguard_init_prison I pr opts k3 of (e4, k4) \<Rightarrow>
      if e4 \<noteq> 0 then pax_init_prison_out pr False k4 else
     (case (if COMPAT_FREEBSD32 cfg then pax_aslr_init_prison32 I pr opts k4 else (0, k4))
        of (e5, k5) \<Rightarrow>
      if e5 \<noteq> 0 then pax_init_prison_out pr False k5 else
     (case pax_log_init_prison I pr opts k5 of (e6, k6) \<Rightarrow>
      if e6 \<noteq> 0 then pax_init_prison_out pr False k6 else
      pax_init_prison_out pr True k6))))))"

text \<open>
  The spec's reading of the initializer, to compare with the code: the compiled-in
  initializers as an ordered list, invoked one after the other on the memory the
  previous one left, stopping after the first non-zero result. The result lists the
  error codes of the initializers that ran.
\<close>

definition prison_init_order ::
  "config \<Rightarrow> ('o, 'k) prison_inits \<Rightarrow> (prison_ptr \<Rightarrow> 'o \<Rightarrow> 'k \<Rightarrow> int \<times> 'k) list" where
  "prison_init_order cfg I =
     [pax_aslr_init_prison I, pax_hardening_init_prison I, pax_noexec_init_prison I,
      pax_segvguard_init_prison I] @
     (if COMPAT_FREEBSD32 cfg then [pax_aslr_init_prison32 I] else []) @
     [pax_log_init_prison I]"

fun invoke_in_order ::
  "(prison_ptr \<Rightarrow> 'o \<Rightarrow> 'k \<Rightarrow> int \<times> 'k) list \<Rightarrow> prison_ptr \<Rightarrow> 'o \<Rightarrow> 'k \<Rightarrow> int list \<times> 'k" where
  "invoke_in_order [] pr opts k = ([], k)"
| "invoke_in_order (f # fs) pr opts k =
     (case f pr opts k of (e, k') \<Rightarrow>
        if e \<noteq> 0 then ([e], k')
        else (case invoke_in_order fs pr opts k' of (es, k'') \<Rightarrow> (e # es, k'')))"

subsection \<open>Jail parameters: \<^verbatim>\<open>pax_handle_prison_param\<close> (lines 506-528)\<close>

text \<open>
  Modelled from the spec: \<^verbatim>\<open>vfs_copyopt\<close> is in another file of the kernel; the spec
  gives it as \<open>lookup_param(params, key) -> (value, found|absent|error)\<close>. It is a
  parameter of the model: from the list, the name and the length it returns its
  error code and the value it leaves in \<^verbatim>\<open>new_state\<close> (read only when the code is 0).
  \<^verbatim>\<open>sizeof(new_state)\<close> is 4. The model returns the function's result together with
  the value left in \<^verbatim>\<open>*status\<close>.
\<close>

definition pax_handle_prison_param ::
  "config \<Rightarrow> macros \<Rightarrow> ('o \<Rightarrow> string \<Rightarrow> nat \<Rightarrow> int \<times> pax_state_t) \<Rightarrow>
   'o \<Rightarrow> string \<Rightarrow> pax_state_t \<Rightarrow> int \<times> pax_state_t" where
  "pax_handle_prison_param cfg K vfs_copyopt opts mib status =
     (if PAX_JAIL_SUPPORT cfg then
        (case vfs_copyopt opts mib 4 of (error, new_state) \<Rightarrow>
           if error = ENOENT K then (0, status)
           else if error = 0 then
             (case pax_feature_validate_state new_state of (ok, new_state') \<Rightarrow>
                if ok then (0, new_state') else (0, status))
           else (error, status))
      else (0, status))"

subsection \<open>Sample inputs\<close>

text \<open>
  A sample layout of the macros, for the closed examples below: six enable/disable
  pairs in the low twelve bits (the disable bit one position above its enable bit),
  the prefer-ACL marker in bit 31, and the BSD values of the two error codes.
\<close>

definition K_ex :: macros where
  "K_ex = \<lparr>PAX_NOTE_ALL = 0x80000FFF, PAX_NOTE_ALL_ENABLED = 0x555,
           PAX_NOTE_ALL_DISABLED = 0xAAA, PAX_NOTE_PREFER_ACL = 0x80000000,
           ENOEXEC = 8, ENOENT = 2\<rparr>"

text \<open>A kernel with every option of this file compiled in.\<close>

definition cfg_ex :: config where
  "cfg_ex = \<lparr>PAX_CONTROL_ACL = True, PAX_CONTROL_EXTATTR = True,
             PAX_CONTROL_ACL_OVERRIDE_SUPPORT = True, PAX_ASLR = True, MAP_32BIT = True,
             PAX_NOEXEC = True, PAX_SEGVGUARD = True, PAX_HARDENING = True,
             HBSD_DEBUG = True, COMPAT_FREEBSD32 = True, PAX_JAIL_SUPPORT = True\<rparr>"

text \<open>
  Sample hooks: ASLR follows a disable request in the mode, the other engines return
  fixed bits; the hardening engine returns \<open>h\<close>, so that a well-behaved engine
  (\<open>h = 0x100\<close>) and a defective one (\<open>h = 0x1000\<close>, an unknown bit) can both be run.
\<close>

definition H_ex :: "pax_flag_t \<Rightarrow> hooks" where
  "H_ex h = \<lparr>pax_aslr_setup_flags = (\<lambda>s imgp td mode. if mode AND 0x80 \<noteq> 0 then 0x80 else 0x40),
             pax_disallow_map32bit_setup_flags = (\<lambda>s imgp td mode. 0x800),
             pax_noexec_setup_flags = (\<lambda>s imgp td mode. 0x5),
             pax_segvguard_setup_flags = (\<lambda>s imgp td mode. 0x10),
             pax_hardening_setup_flags = (\<lambda>s imgp td mode. h)\<rparr>"

text \<open>
  A kernel memory in which thread 1 runs, process 1 has the threads 1 and 2, and
  every mask is \<open>m\<close>; both logs are empty.
\<close>

definition s_ex :: "pax_flag_t \<Rightarrow> kernel" where
  "s_ex m = \<lparr>curthread = 1,
             threads = (\<lambda>t. \<lparr>td_proc = 1, td_pax = m\<rparr>),
             procs = (\<lambda>p. \<lparr>p_pax = m, p_threads = [1, 2]\<rparr>),
             klog = [], ulog = []\<rparr>"

definition imgp_ex :: "pax_flag_t \<Rightarrow> pax_flag_t \<Rightarrow> image_params" where
  "imgp_ex acl extattr = \<lparr>req_acl_flags = acl, req_extattr_flags = extattr, proc = 1\<rparr>"

text \<open>
  Sample prison initializers over a memory that lists the initializers that ran;
  the no-exec one returns \<open>e\<close>, the others succeed.
\<close>

definition I_ex :: "int \<Rightarrow> (unit, string list) prison_inits" where
  "I_ex e = \<lparr>pax_aslr_init_prison = (\<lambda>pr opts k. (0, k @ [''aslr''])),
             pax_hardening_init_prison = (\<lambda>pr opts k. (0, k @ [''hardening''])),
             pax_noexec_init_prison = (\<lambda>pr opts k. (e, k @ [''noexec''])),
             pax_segvguard_init_prison = (\<lambda>pr opts k. (0, k @ [''segvguard''])),
             pax_aslr_init_prison32 = (\<lambda>pr opts k. (0, k @ [''aslr32''])),
             pax_log_init_prison = (\<lambda>pr opts k. (0, k @ [''log'']))\<rparr>"

text \<open>
  A sample \<^verbatim>\<open>vfs_copyopt\<close> over a list of (name, length, value): \<^verbatim>\<open>ENOENT\<close> (2) when
  the name is absent, \<^verbatim>\<open>EINVAL\<close> (22) when the lengths differ, else 0 and the value.
\<close>

definition vfs_copyopt_ex ::
  "(string \<times> nat \<times> pax_state_t) list \<Rightarrow> string \<Rightarrow> nat \<Rightarrow> int \<times> pax_state_t" where
  "vfs_copyopt_ex opts name len =
     (case map_of opts name of
        None \<Rightarrow> (2, 0)
      | Some (l, v) \<Rightarrow> if len \<noteq> l then (22, 0) else (0, v))"

lemmas ex_defs = K_ex_def cfg_ex_def H_ex_def s_ex_def imgp_ex_def

section \<open>Properties\<close>

subsection \<open>Auxiliary facts\<close>

lemma word32_neq_0_iff: "(w :: 32 word) \<noteq> 0 \<longleftrightarrow> (\<exists>n. bit w n)"
proof
  assume "w \<noteq> 0"
  then show "\<exists>n. bit w n" by (auto simp: bit_eq_iff)
next
  assume "\<exists>n. bit w n"
  then show "w \<noteq> 0" by auto
qed

lemma outside_mask_iff:
  "((m :: 32 word) AND NOT a \<noteq> 0) = (\<exists>n. bit m n \<and> \<not> bit a n)"
proof
  assume "m AND NOT a \<noteq> 0"
  then obtain n where "bit (m AND NOT a) n" unfolding word32_neq_0_iff ..
  then have "bit m n \<and> \<not> bit a n" by (simp add: bit_and_iff bit_not_iff)
  then show "\<exists>n. bit m n \<and> \<not> bit a n" ..
next
  assume "\<exists>n. bit m n \<and> \<not> bit a n"
  then obtain n where n: "bit m n" "\<not> bit a n" by blast
  from n(1) have "n < 32" by (auto dest: bit_imp_le_length)
  with n have "bit (m AND NOT a) n" by (simp add: bit_and_iff bit_not_iff)
  then show "m AND NOT a \<noteq> 0" unfolding word32_neq_0_iff ..
qed

lemma paired_bits_iff:
  "(((m :: 32 word) AND e) AND drop_bit 1 (m AND d) \<noteq> 0) =
   (\<exists>n. bit e n \<and> bit d (Suc n) \<and> bit m n \<and> bit m (Suc n))"
  unfolding word32_neq_0_iff by (auto simp: bit_and_iff bit_drop_bit_eq)

text \<open>The loop of \<^verbatim>\<open>pax_set_flags\<close> writes the mask of exactly the listed threads.\<close>

lemma pax_set_flags_loop_eq:
  "pax_set_flags_loop tds flags s =
     s\<lparr>threads := (\<lambda>t. if t \<in> set tds then (threads s t)\<lparr>td_pax := flags\<rparr> else threads s t)\<rparr>"
proof (induction tds arbitrary: s)
  case Nil
  show ?case by simp
next
  case (Cons td0 tds)
  have "(\<lambda>t. if t \<in> set tds
              then (threads (pax_set_flags_td td0 flags s) t)\<lparr>td_pax := flags\<rparr>
              else threads (pax_set_flags_td td0 flags s) t) =
        (\<lambda>t. if t \<in> set (td0 # tds) then (threads s t)\<lparr>td_pax := flags\<rparr> else threads s t)"
    by (rule ext) (simp add: pax_set_flags_td_def)
  then show ?case
    by (simp add: Cons.IH) (simp add: pax_set_flags_td_def)
qed

lemma pax_get_flags_debug_None:
  "(pax_get_flags_debug s p tds = None) = (\<forall>t\<in>set tds. td_pax (threads s t) = p_pax (procs s p))"
  by (induction tds) auto

lemma pax_get_flags_td_debug_None:
  "(pax_get_flags_td_debug s p tds = None) =
     (\<forall>t\<in>set tds. td_proc (threads s t) = p \<and> td_pax (threads s t) = p_pax (procs s p))"
  by (induction tds) auto

lemma pax_set_flags_Inr:
  assumes "td = curthread s" and "td_proc (threads s td) = p"
  shows "pax_set_flags p td flags s =
     Inr (s\<lparr>threads := (\<lambda>t. if t \<in> set (p_threads (procs s p))
                              then (threads s t)\<lparr>td_pax := flags\<rparr> else threads s t),
            procs := (procs s)(p := (procs s p)\<lparr>p_pax := flags\<rparr>)\<rparr>)"
  using assms by (simp add: pax_set_flags_def pax_set_flags_loop_eq cong: if_cong)

lemma pax_set_flags_Inr_D:
  assumes "pax_set_flags p td flags s = Inr s'"
  shows "td = curthread s \<and> td_proc (threads s td) = p"
  using assms by (simp add: pax_set_flags_def split: if_splits)

lemma pax_set_flags_post:
  assumes "pax_set_flags p td flags s = Inr s'"
  shows "p_pax (procs s' p) = flags \<and>
         p_threads (procs s' p) = p_threads (procs s p) \<and>
         (\<forall>t\<in>set (p_threads (procs s' p)). td_pax (threads s' t) = flags)"
proof -
  from assms have "td = curthread s" "td_proc (threads s td) = p"
    using pax_set_flags_Inr_D by blast+
  from pax_set_flags_Inr [OF this, of flags] assms show ?thesis by auto
qed

text \<open>When \<^verbatim>\<open>pax_get_flags_td\<close> returns: its assertions hold and it reads the thread's mask.\<close>

lemma pax_get_flags_td_Inr_iff:
  "(pax_get_flags_td cfg td s = Inr flags) =
     (td = curthread s \<and> flags = td_pax (threads s td) \<and>
      (HBSD_DEBUG cfg \<longrightarrow>
         (\<forall>t\<in>set (p_threads (procs s (td_proc (threads s td)))).
            td_proc (threads s t) = td_proc (threads s td) \<and>
            td_pax (threads s t) = p_pax (procs s (td_proc (threads s td))))))"
  by (auto simp: pax_get_flags_td_def Let_def pax_get_flags_td_debug_None [symmetric]
      simp del: pax_get_flags_td_debug.simps split: option.splits)

lemma pax_elf_acl_override_off:
  "\<not> (PAX_CONTROL_ACL cfg \<and> PAX_CONTROL_ACL_OVERRIDE_SUPPORT cfg) \<Longrightarrow>
     pax_elf_acl_override cfg K td s = Inr False"
  by (auto simp: pax_elf_acl_override_def)

text \<open>
  The short-circuit of lines 272-278 stays out of the way exactly when override
  support is not compiled in, or the mask read for the thread lacks the marker.
\<close>

lemma pax_elf_acl_override_False_iff:
  "(pax_elf_acl_override cfg K td s = Inr False) =
     (\<not> (PAX_CONTROL_ACL cfg \<and> PAX_CONTROL_ACL_OVERRIDE_SUPPORT cfg) \<or>
      (\<exists>flags. pax_get_flags_td cfg td s = Inr flags \<and>
         (flags AND PAX_NOTE_PREFER_ACL K) \<noteq> PAX_NOTE_PREFER_ACL K))"
  by (auto simp: pax_elf_acl_override_def split: sum.splits)

lemma pax_elf_reject_effect:
  "pax_elf_reject K imgp fmt v s =
     Inr (ENOEXEC K, s\<lparr>klog := klog s @ [(fmt, [v])], ulog := ulog s @ [(fmt @ newline, [v])]\<rparr>)"
  by (simp add: pax_elf_reject_def pax_ulog_internal_def pax_log_internal_imgp_def)

lemma pax_elf_reject_ex:
  "\<exists>s' fmt' v'. pax_elf_reject K imgp fmt v s = Inr (ENOEXEC K, s') \<and>
       klog s' = klog s @ [(fmt', [v'])] \<and> ulog s' = ulog s @ [(fmt' @ newline, [v'])] \<and>
       threads s' = threads s \<and> procs s' = procs s \<and> curthread s' = curthread s"
  unfolding pax_elf_reject_effect
  by (intro exI [of _ "s\<lparr>klog := klog s @ [(fmt, [v])], ulog := ulog s @ [(fmt @ newline, [v])]\<rparr>"]
      exI [of _ fmt] exI [of _ v]) simp

lemma prefer_acl_marker:
  assumes "PAX_CONTROL_ACL cfg" and "PAX_CONTROL_ACL_OVERRIDE_SUPPORT cfg"
  shows "((pax_elf_prefer_acl cfg K mode acc AND PAX_NOTE_PREFER_ACL K) = PAX_NOTE_PREFER_ACL K) =
         ((mode AND PAX_NOTE_PREFER_ACL K) = PAX_NOTE_PREFER_ACL K)"
proof (cases "(mode AND PAX_NOTE_PREFER_ACL K) = PAX_NOTE_PREFER_ACL K")
  case True
  then show ?thesis using assms by (simp add: pax_elf_prefer_acl_def)
next
  case False
  then have nz: "PAX_NOTE_PREFER_ACL K \<noteq> 0" by auto
  have "(acc AND NOT (PAX_NOTE_PREFER_ACL K)) AND PAX_NOTE_PREFER_ACL K = 0"
    by (simp add: and.assoc)
  with False nz show ?thesis using assms by (simp add: pax_elf_prefer_acl_def)
qed

text \<open>The ordered run stops at the first non-zero code: only the last code can be non-zero.\<close>

lemma invoke_in_order_shape:
  "invoke_in_order fs pr opts k = (es, k') \<Longrightarrow>
     (\<forall>e\<in>set (butlast es). e = 0) \<and> length es \<le> length fs \<and>
     ((\<forall>e\<in>set es. e = 0) \<longrightarrow> length es = length fs)"
proof (induction fs arbitrary: k es k')
  case Nil
  then show ?case by simp
next
  case (Cons f fs)
  obtain e k1 where f: "f pr opts k = (e, k1)" by (cases "f pr opts k")
  show ?case
  proof (cases "e = 0")
    case False
    with Cons.prems f show ?thesis by auto
  next
    case True
    obtain es1 k2 where r: "invoke_in_order fs pr opts k1 = (es1, k2)"
      by (cases "invoke_in_order fs pr opts k1")
    from Cons.IH [OF r] Cons.prems f True r show ?thesis
      by (auto split: if_splits)
  qed
qed

lemma pax_init_prison_out_eq:
  "pax_init_prison_out pr ret k =
     (if ret then Inr (True, k)
      else if pr = prison0
      then Inl (Panic ''Unexpected error during prison0 initialization.'')
      else Inr (False, k))"
  by (simp add: pax_init_prison_out_def)

lemma invoke_in_order_verdict:
  "(case invoke_in_order (f # fs) pr opts k of (es, k') \<Rightarrow>
      if \<forall>e\<in>set es. e = 0 then Inr (True, k')
      else if pr = prison0 then Inl P else Inr (False, k')) =
   (case f pr opts k of (e, k1) \<Rightarrow>
      if e \<noteq> 0 then (if pr = prison0 then Inl P else Inr (False, k1))
      else (case invoke_in_order fs pr opts k1 of (es, k') \<Rightarrow>
              if \<forall>e\<in>set es. e = 0 then Inr (True, k')
              else if pr = prison0 then Inl P else Inr (False, k')))"
  by (simp split: prod.splits)

lemma pax_init_prison_eq:
  "pax_init_prison cfg I pr opts k =
     (case invoke_in_order (prison_init_order cfg I) pr opts k of (es, k') \<Rightarrow>
        if \<forall>e\<in>set es. e = 0 then Inr (True, k')
        else if pr = prison0
        then Inl (Panic ''Unexpected error during prison0 initialization.'')
        else Inr (False, k'))"
proof (cases "COMPAT_FREEBSD32 cfg")
  case True
  then show ?thesis
    unfolding pax_init_prison_def prison_init_order_def pax_init_prison_out_eq
    by (simp only: append.simps if_True if_False invoke_in_order_verdict)
       (simp cong: prod.case_cong if_cong)
next
  case False
  then show ?thesis
    unfolding pax_init_prison_def prison_init_order_def pax_init_prison_out_eq
    by (simp only: append.simps if_True if_False invoke_in_order_verdict)
       (simp cong: prod.case_cong if_cong)
qed

text \<open>An activation that passes the four checks commits and returns 0.\<close>

lemma pax_elf_commits:
  assumes ovr: "pax_elf_acl_override cfg K td s = Inr False"
    and mode: "mode = pax_get_requested_flags cfg K imgp"
    and acc: "acc = pax_elf_setup_flags cfg H s imgp td mode"
    and pass: "pax_validate_flags K mode = 0" "pax_check_conflicting_modes K mode = 0"
      "pax_validate_flags K acc = 0" "pax_check_conflicting_modes K acc = 0"
    and td: "td = curthread s" "td_proc (threads s td) = proc imgp"
  shows "\<exists>s'. pax_elf cfg K H td imgp s = Inr (0, s')"
proof -
  from pax_set_flags_Inr [OF td] obtain s'' where
    "pax_set_flags (proc imgp) td (pax_elf_prefer_acl cfg K mode acc) s = Inr s''"
    by blast
  then show ?thesis
    using ovr pass mode acc by (simp add: pax_elf_def Let_def)
qed

subsection \<open>Claims\<close>

text \<open>
  Claim C1, as the code has it. An image activation that the ACL-override
  short-circuit does not end (override support is not compiled in, or the mask
  \<^verbatim>\<open>pax_get_flags_td\<close> reads for the current thread lacks the marker) and in which a
  validator predicate fails, on the requested mode or on the accumulated flags,
  returns \<^verbatim>\<open>ENOEXEC\<close>, appends exactly one line to the kernel log and the same line
  (with a newline) to the user's log, and leaves the masks of every process and
  thread as they were: \<^verbatim>\<open>pax_set_flags\<close> is not reached.
\<close>

theorem pax_elf_rejects:
  assumes ovr: "pax_elf_acl_override cfg K td s = Inr False"
    and mode: "mode = pax_get_requested_flags cfg K imgp"
    and flags: "flags = pax_elf_setup_flags cfg H s imgp td mode"
    and fail: "pax_validate_flags K mode \<noteq> 0 \<or> pax_check_conflicting_modes K mode \<noteq> 0 \<or>
               pax_validate_flags K flags \<noteq> 0 \<or> pax_check_conflicting_modes K flags \<noteq> 0"
  shows "\<exists>s' fmt v. pax_elf cfg K H td imgp s = Inr (ENOEXEC K, s') \<and>
           klog s' = klog s @ [(fmt, [v])] \<and> ulog s' = ulog s @ [(fmt @ newline, [v])] \<and>
           threads s' = threads s \<and> procs s' = procs s \<and> curthread s' = curthread s"
proof -
  consider (a) "pax_validate_flags K mode \<noteq> 0"
    | (b) "pax_validate_flags K mode = 0" "pax_check_conflicting_modes K mode \<noteq> 0"
    | (c) "pax_validate_flags K mode = 0" "pax_check_conflicting_modes K mode = 0"
          "pax_validate_flags K flags \<noteq> 0"
    | (d) "pax_validate_flags K mode = 0" "pax_check_conflicting_modes K mode = 0"
          "pax_validate_flags K flags = 0" "pax_check_conflicting_modes K flags \<noteq> 0"
    using fail by blast
  then show ?thesis
  proof cases
    case a
    then have "pax_elf cfg K H td imgp s = pax_elf_reject K imgp ''unknown paxflags: %x'' mode s"
      using ovr mode by (simp add: pax_elf_def Let_def)
    then show ?thesis using pax_elf_reject_ex by simp
  next
    case b
    then have "pax_elf cfg K H td imgp s = pax_elf_reject K imgp ''inconsistent paxflags: %x'' mode s"
      using ovr mode by (simp add: pax_elf_def Let_def)
    then show ?thesis using pax_elf_reject_ex by simp
  next
    case c
    then have "pax_elf cfg K H td imgp s =
        pax_elf_reject K imgp ''unknown paxflags after the setup: %x'' flags s"
      using ovr mode flags by (simp add: pax_elf_def Let_def)
    then show ?thesis using pax_elf_reject_ex by simp
  next
    case d
    then have "pax_elf cfg K H td imgp s =
        pax_elf_reject K imgp ''inconsistent paxflags after the setup: %x'' flags s"
      using ovr mode flags by (simp add: pax_elf_def Let_def)
    then show ?thesis using pax_elf_reject_ex by simp
  qed
qed

text \<open>
  The theorem at two activations of thread 1, whose committed mask \<open>0x41\<close> has no
  marker: a request with the unknown bit 30, and an empty request met by a hardening
  engine that returns the unknown bit 12.
\<close>

theorem pax_elf_rejects_witness:
  "pax_elf_acl_override cfg_ex K_ex 1 (s_ex 0x41) = Inr False \<and>
   pax_validate_flags K_ex (pax_get_requested_flags cfg_ex K_ex (imgp_ex 0 0x40000000)) \<noteq> 0 \<and>
   (\<exists>s' fmt v. pax_elf cfg_ex K_ex (H_ex 0x100) 1 (imgp_ex 0 0x40000000) (s_ex 0x41) = Inr (8, s') \<and>
      klog s' = [(fmt, [v])] \<and> ulog s' = [(fmt @ newline, [v])] \<and>
      threads s' = threads (s_ex 0x41) \<and> procs s' = procs (s_ex 0x41)) \<and>
   pax_validate_flags K_ex
     (pax_elf_setup_flags cfg_ex (H_ex 0x1000) (s_ex 0x41) (imgp_ex 0 0) 1
        (pax_get_requested_flags cfg_ex K_ex (imgp_ex 0 0))) \<noteq> 0 \<and>
   (\<exists>s' fmt v. pax_elf cfg_ex K_ex (H_ex 0x1000) 1 (imgp_ex 0 0) (s_ex 0x41) = Inr (8, s') \<and>
      klog s' = [(fmt, [v])] \<and> ulog s' = [(fmt @ newline, [v])] \<and>
      threads s' = threads (s_ex 0x41) \<and> procs s' = procs (s_ex 0x41))"
proof -
  have ovr: "pax_elf_acl_override cfg_ex K_ex 1 (s_ex 0x41) = Inr False"
    by (simp add: ex_defs pax_elf_acl_override_def pax_get_flags_td_def)
  have m1: "pax_validate_flags K_ex (pax_get_requested_flags cfg_ex K_ex (imgp_ex 0 0x40000000)) \<noteq> 0"
    by (simp add: ex_defs pax_get_requested_flags_def pax_validate_flags_def)
  have m2: "pax_validate_flags K_ex
     (pax_elf_setup_flags cfg_ex (H_ex 0x1000) (s_ex 0x41) (imgp_ex 0 0) 1
        (pax_get_requested_flags cfg_ex K_ex (imgp_ex 0 0))) \<noteq> 0"
    by (simp add: ex_defs pax_get_requested_flags_def pax_validate_flags_def pax_elf_setup_flags_def)
  have k: "ENOEXEC K_ex = 8" "klog (s_ex 0x41) = []" "ulog (s_ex 0x41) = []"
    by (simp_all add: ex_defs)
  from pax_elf_rejects [OF ovr refl refl, of "imgp_ex 0 0x40000000" "H_ex 0x100"] m1
  have r1: "\<exists>s' fmt v. pax_elf cfg_ex K_ex (H_ex 0x100) 1 (imgp_ex 0 0x40000000) (s_ex 0x41) = Inr (8, s') \<and>
      klog s' = [(fmt, [v])] \<and> ulog s' = [(fmt @ newline, [v])] \<and>
      threads s' = threads (s_ex 0x41) \<and> procs s' = procs (s_ex 0x41)"
    unfolding k by auto
  from pax_elf_rejects [OF ovr refl refl, of "imgp_ex 0 0" "H_ex 0x1000"] m2
  have r2: "\<exists>s' fmt v. pax_elf cfg_ex K_ex (H_ex 0x1000) 1 (imgp_ex 0 0) (s_ex 0x41) = Inr (8, s') \<and>
      klog s' = [(fmt, [v])] \<and> ulog s' = [(fmt @ newline, [v])] \<and>
      threads s' = threads (s_ex 0x41) \<and> procs s' = procs (s_ex 0x41)"
    unfolding k by auto
  from ovr m1 r1 m2 r2 show ?thesis by (simp only: simp_thms)
qed

text \<open>
  The claim as written fails where ACL override support is compiled in and the
  current thread's committed mask carries the marker: the requested mode
  \<open>0x40000000\<close> has an unknown bit, the unknown-bits predicate fails on it, and
  \<^verbatim>\<open>pax_elf\<close> returns 0, not \<^verbatim>\<open>ENOEXEC\<close>, with both logs still empty.
\<close>

theorem pax_elf_rejects_counterexample:
  "pax_validate_flags K_ex (pax_get_requested_flags cfg_ex K_ex (imgp_ex 0x40000000 0)) \<noteq> 0 \<and>
   pax_elf cfg_ex K_ex (H_ex 0x100) 1 (imgp_ex 0x40000000 0) (s_ex 0x80000041)
     = Inr (0, s_ex 0x80000041) \<and>
   ENOEXEC K_ex \<noteq> 0 \<and>
   klog (s_ex 0x80000041) = [] \<and> ulog (s_ex 0x80000041) = []"
  by (simp add: ex_defs pax_get_requested_flags_def pax_validate_flags_def pax_elf_def
      pax_elf_acl_override_def pax_get_flags_td_def)

text \<open>
  Claim C2. With both control channels compiled in, the Request Resolver returns the
  ACL-origin value whenever that value carries the prefer-ACL marker, whatever the
  extended-attribute value is; otherwise it returns the extended-attribute value,
  except that it returns the ACL-origin value when the extended-attribute value is
  zero and the ACL-origin value is not.
\<close>

theorem pax_get_requested_flags_both:
  assumes "PAX_CONTROL_ACL cfg" and "PAX_CONTROL_EXTATTR cfg"
  shows "((req_acl_flags imgp AND PAX_NOTE_PREFER_ACL K) \<noteq> 0 \<longrightarrow>
            pax_get_requested_flags cfg K imgp = req_acl_flags imgp) \<and>
         ((req_acl_flags imgp AND PAX_NOTE_PREFER_ACL K) = 0 \<longrightarrow>
            pax_get_requested_flags cfg K imgp =
              (if req_extattr_flags imgp = 0 \<and> req_acl_flags imgp \<noteq> 0
               then req_acl_flags imgp else req_extattr_flags imgp))"
  using assms by (simp add: pax_get_requested_flags_def Let_def)

theorem pax_get_requested_flags_both_witness:
  "PAX_CONTROL_ACL cfg_ex \<and> PAX_CONTROL_EXTATTR cfg_ex \<and>
   pax_get_requested_flags cfg_ex K_ex (imgp_ex 0x80000040 0x80) = 0x80000040 \<and>
   pax_get_requested_flags cfg_ex K_ex (imgp_ex 0x40 0x80) = 0x80 \<and>
   pax_get_requested_flags cfg_ex K_ex (imgp_ex 0x40 0) = 0x40 \<and>
   pax_get_requested_flags cfg_ex K_ex (imgp_ex 0 0) = 0"
proof -
  have c: "PAX_CONTROL_ACL cfg_ex" "PAX_CONTROL_EXTATTR cfg_ex"
    by (simp_all add: cfg_ex_def)
  show ?thesis
    using c pax_get_requested_flags_both [OF c, of "imgp_ex 0x80000040 0x80" K_ex]
      pax_get_requested_flags_both [OF c, of "imgp_ex 0x40 0x80" K_ex]
      pax_get_requested_flags_both [OF c, of "imgp_ex 0x40 0" K_ex]
      pax_get_requested_flags_both [OF c, of "imgp_ex 0 0" K_ex]
    by (simp add: K_ex_def imgp_ex_def)
qed

text \<open>
  Claim C3. For every mask \<open>m\<close>, \<^verbatim>\<open>pax_validate_flags\<close> reports a failure (1) if and
  only if \<open>m\<close> has a bit set outside \<^verbatim>\<open>PAX_NOTE_ALL\<close>, that is iff
  \<open>m AND NOT PAX_NOTE_ALL\<close> is not zero; for every other mask it reports success (0).
\<close>

theorem pax_validate_flags_unknown_bits:
  "pax_validate_flags K m = (if \<exists>n. bit m n \<and> \<not> bit (PAX_NOTE_ALL K) n then 1 else 0) \<and>
   (pax_validate_flags K m \<noteq> 0) = ((m AND NOT (PAX_NOTE_ALL K)) \<noteq> 0) \<and>
   (pax_validate_flags K m = 0) = (m AND NOT (PAX_NOTE_ALL K) = 0)"
  unfolding pax_validate_flags_def outside_mask_iff [symmetric] by simp

text \<open>
  Claim C4. For every mask \<open>m\<close>, \<^verbatim>\<open>pax_check_conflicting_modes\<close> reports a conflict
  (1) if and only if some enable bit (a bit \<open>n\<close> of \<^verbatim>\<open>PAX_NOTE_ALL_ENABLED\<close>) and its
  paired disable bit (bit \<open>n + 1\<close>, in \<^verbatim>\<open>PAX_NOTE_ALL_DISABLED\<close>) are both set in \<open>m\<close>,
  computed as \<open>(m AND ENABLED) AND ((m AND DISABLED) >> 1) \<noteq> 0\<close>; for every other
  mask it reports no conflict (0).
\<close>

theorem pax_check_conflicting_modes_pairs:
  "pax_check_conflicting_modes K m =
     (if \<exists>n. bit (PAX_NOTE_ALL_ENABLED K) n \<and> bit (PAX_NOTE_ALL_DISABLED K) (Suc n) \<and>
              bit m n \<and> bit m (Suc n)
      then 1 else 0) \<and>
   (pax_check_conflicting_modes K m \<noteq> 0) =
     (((m AND PAX_NOTE_ALL_ENABLED K) AND drop_bit 1 (m AND PAX_NOTE_ALL_DISABLED K)) \<noteq> 0)"
  unfolding pax_check_conflicting_modes_def paired_bits_iff [symmetric] by simp

text \<open>
  Claim C5. A call \<^verbatim>\<open>pax_set_flags(p, td, flags)\<close> whose assertions hold (\<open>td\<close> is the
  current thread and belongs to \<open>p\<close>) returns, and afterwards the mask of \<open>p\<close> is
  \<open>flags\<close> and the mask of every thread of \<open>p\<close> is \<open>flags\<close>: every thread of \<open>p\<close>
  carries the mask of \<open>p\<close>, and \<^verbatim>\<open>pax_get_flags\<close>, whose \<^verbatim>\<open>HBSD_DEBUG\<close> loop asserts
  that invariant, returns \<open>flags\<close> in every configuration.
\<close>

theorem pax_set_flags_commits:
  assumes "td = curthread s" and "td_proc (threads s td) = p"
  shows "\<exists>s'. pax_set_flags p td flags s = Inr s' \<and>
           p_pax (procs s' p) = flags \<and>
           p_threads (procs s' p) = p_threads (procs s p) \<and>
           (\<forall>t\<in>set (p_threads (procs s' p)). td_pax (threads s' t) = flags) \<and>
           (\<forall>t\<in>set (p_threads (procs s' p)). td_pax (threads s' t) = p_pax (procs s' p)) \<and>
           pax_get_flags cfg p s' = Inr flags"
proof -
  let ?s' = "s\<lparr>threads := (\<lambda>t. if t \<in> set (p_threads (procs s p))
                              then (threads s t)\<lparr>td_pax := flags\<rparr> else threads s t),
               procs := (procs s)(p := (procs s p)\<lparr>p_pax := flags\<rparr>)\<rparr>"
  have ret: "pax_set_flags p td flags s = Inr ?s'"
    using assms by (rule pax_set_flags_Inr)
  have p: "p_pax (procs ?s' p) = flags" by simp
  have l: "p_threads (procs ?s' p) = p_threads (procs s p)" by simp
  have t: "\<forall>t\<in>set (p_threads (procs ?s' p)). td_pax (threads ?s' t) = flags" by simp
  have cur: "td_proc (threads ?s' (curthread ?s')) = p"
    using assms by simp
  have dbg: "pax_get_flags_debug ?s' p (p_threads (procs ?s' p)) = None"
    unfolding pax_get_flags_debug_None using t p by simp
  have get: "pax_get_flags cfg p ?s' = Inr flags"
    unfolding pax_get_flags_def using cur dbg p by (simp del: pax_get_flags_debug.simps)
  from ret p l t get show ?thesis by (intro exI [of _ ?s']) simp
qed

text \<open>
  The theorem where thread 1 of process 1 commits \<open>0x995\<close> over the masks \<open>0x41\<close>:
  the process and its threads 1 and 2 end with \<open>0x995\<close>.
\<close>

theorem pax_set_flags_commits_witness:
  "1 = curthread (s_ex 0x41) \<and> td_proc (threads (s_ex 0x41) 1) = 1 \<and>
   (\<exists>s'. pax_set_flags 1 1 0x995 (s_ex 0x41) = Inr s' \<and>
      p_pax (procs s' 1) = 0x995 \<and> td_pax (threads s' 1) = 0x995 \<and>
      td_pax (threads s' 2) = 0x995 \<and> pax_get_flags cfg_ex 1 s' = Inr 0x995)"
proof -
  have a: "1 = curthread (s_ex 0x41)" "td_proc (threads (s_ex 0x41) 1) = 1"
    by (simp_all add: s_ex_def)
  have l: "p_threads (procs (s_ex 0x41) 1) = [1, 2]"
    by (simp add: s_ex_def)
  from pax_set_flags_commits [OF a, of "0x995" cfg_ex] obtain s' where
    "pax_set_flags 1 1 0x995 (s_ex 0x41) = Inr s'" "p_pax (procs s' 1) = 0x995"
    "\<forall>t\<in>set [1, 2]. td_pax (threads s' t) = 0x995" "pax_get_flags cfg_ex 1 s' = Inr 0x995"
    unfolding l by auto
  then have "pax_set_flags 1 1 0x995 (s_ex 0x41) = Inr s' \<and>
      p_pax (procs s' 1) = 0x995 \<and> td_pax (threads s' 1) = 0x995 \<and>
      td_pax (threads s' 2) = 0x995 \<and> pax_get_flags cfg_ex 1 s' = Inr 0x995"
    by simp
  then have "\<exists>s'. pax_set_flags 1 1 0x995 (s_ex 0x41) = Inr s' \<and>
      p_pax (procs s' 1) = 0x995 \<and> td_pax (threads s' 1) = 0x995 \<and>
      td_pax (threads s' 2) = 0x995 \<and> pax_get_flags cfg_ex 1 s' = Inr 0x995" ..
  with a show ?thesis by (simp only: simp_thms)
qed

text \<open>
  Claim C6. With ACL override support compiled in, on every successful image
  activation that commits (one the short-circuit did not end), the mask passed to
  \<^verbatim>\<open>pax_set_flags\<close> has the \<^verbatim>\<open>PAX_NOTE_PREFER_ACL\<close> marker set if and only if the
  requested mode had it: the mask is the accumulated flags of the hooks with the
  marker set when the mode carries it and cleared when it does not, and it is the
  mask the process and its threads end with.
\<close>

theorem pax_elf_commit_prefer_acl:
  assumes acl: "PAX_CONTROL_ACL cfg" "PAX_CONTROL_ACL_OVERRIDE_SUPPORT cfg"
    and ovr: "pax_elf_acl_override cfg K td s = Inr False"
    and err: "ENOEXEC K \<noteq> 0"
    and ret: "pax_elf cfg K H td imgp s = Inr (0, s')"
    and mode: "mode = pax_get_requested_flags cfg K imgp"
    and acc: "acc = pax_elf_setup_flags cfg H s imgp td mode"
  shows "\<exists>flags s''.
           pax_set_flags (proc imgp) td flags s = Inr s'' \<and>
           s' = (if mode \<noteq> 0
                 then pax_log_internal_imgp imgp
                        ''the process started with non-default hardening settings'' [] s''
                 else s'') \<and>
           flags = (if (mode AND PAX_NOTE_PREFER_ACL K) = PAX_NOTE_PREFER_ACL K
                    then acc OR PAX_NOTE_PREFER_ACL K
                    else acc AND NOT (PAX_NOTE_PREFER_ACL K)) \<and>
           ((flags AND PAX_NOTE_PREFER_ACL K) = PAX_NOTE_PREFER_ACL K) =
             ((mode AND PAX_NOTE_PREFER_ACL K) = PAX_NOTE_PREFER_ACL K) \<and>
           p_pax (procs s' (proc imgp)) = flags \<and>
           (\<forall>t\<in>set (p_threads (procs s' (proc imgp))). td_pax (threads s' t) = flags)"
proof -
  let ?flags = "pax_elf_prefer_acl cfg K mode acc"
  have pass: "pax_validate_flags K mode = 0" "pax_check_conflicting_modes K mode = 0"
    "pax_validate_flags K acc = 0" "pax_check_conflicting_modes K acc = 0"
    using ret ovr err mode acc
    by (auto simp: pax_elf_def Let_def pax_elf_reject_effect split: if_splits)
  then have "pax_elf cfg K H td imgp s =
      (case pax_set_flags (proc imgp) td ?flags s of
         Inl e \<Rightarrow> Inl e
       | Inr s'' \<Rightarrow>
           Inr (0, if mode \<noteq> 0
                   then pax_log_internal_imgp imgp
                          ''the process started with non-default hardening settings'' [] s''
                   else s''))"
    using ovr mode acc by (simp add: pax_elf_def Let_def cong: sum.case_cong)
  with ret obtain s'' where
    set: "pax_set_flags (proc imgp) td ?flags s = Inr s''" and
    s': "s' = (if mode \<noteq> 0
               then pax_log_internal_imgp imgp
                      ''the process started with non-default hardening settings'' [] s''
               else s'')"
    by (auto split: sum.splits)
  have fl: "?flags = (if (mode AND PAX_NOTE_PREFER_ACL K) = PAX_NOTE_PREFER_ACL K
                    then acc OR PAX_NOTE_PREFER_ACL K
                    else acc AND NOT (PAX_NOTE_PREFER_ACL K))"
    using acl by (simp add: pax_elf_prefer_acl_def)
  have mk: "((?flags AND PAX_NOTE_PREFER_ACL K) = PAX_NOTE_PREFER_ACL K) =
             ((mode AND PAX_NOTE_PREFER_ACL K) = PAX_NOTE_PREFER_ACL K)"
    using acl by (rule prefer_acl_marker)
  have same: "procs s' = procs s''" "threads s' = threads s''"
    using s' by (simp_all add: pax_log_internal_imgp_def)
  have post: "p_pax (procs s' (proc imgp)) = ?flags \<and>
      (\<forall>t\<in>set (p_threads (procs s' (proc imgp))). td_pax (threads s' t) = ?flags)"
    using pax_set_flags_post [OF set] unfolding same by simp
  from set s' fl mk post show ?thesis by blast
qed

text \<open>
  The theorem at two activations over the committed mask \<open>0x41\<close>. The ACL request
  \<open>0x80000080\<close> carries the marker: the hooks accumulate \<open>0x995\<close> and \<open>0x80000995\<close> is
  committed. The extended-attribute request \<open>0x80\<close> does not: \<open>0x995\<close> is committed.
\<close>

theorem pax_elf_commit_prefer_acl_witness:
  "PAX_CONTROL_ACL cfg_ex \<and> PAX_CONTROL_ACL_OVERRIDE_SUPPORT cfg_ex \<and>
   pax_elf_acl_override cfg_ex K_ex 1 (s_ex 0x41) = Inr False \<and> ENOEXEC K_ex \<noteq> 0 \<and>
   (\<exists>s'. pax_elf cfg_ex K_ex (H_ex 0x100) 1 (imgp_ex 0x80000080 0x40) (s_ex 0x41) = Inr (0, s') \<and>
      p_pax (procs s' 1) = 0x80000995 \<and> td_pax (threads s' 1) = 0x80000995 \<and>
      td_pax (threads s' 2) = 0x80000995) \<and>
   (\<exists>s'. pax_elf cfg_ex K_ex (H_ex 0x100) 1 (imgp_ex 0 0x80) (s_ex 0x41) = Inr (0, s') \<and>
      p_pax (procs s' 1) = 0x995 \<and> td_pax (threads s' 1) = 0x995 \<and>
      td_pax (threads s' 2) = 0x995)"
proof -
  have c: "PAX_CONTROL_ACL cfg_ex" "PAX_CONTROL_ACL_OVERRIDE_SUPPORT cfg_ex"
    by (simp_all add: cfg_ex_def)
  have ovr: "pax_elf_acl_override cfg_ex K_ex 1 (s_ex 0x41) = Inr False"
    by (simp add: ex_defs pax_elf_acl_override_def pax_get_flags_td_def)
  have err: "ENOEXEC K_ex \<noteq> 0" by (simp add: K_ex_def)
  have m1: "pax_get_requested_flags cfg_ex K_ex (imgp_ex 0x80000080 0x40) = 0x80000080"
    and m2: "pax_get_requested_flags cfg_ex K_ex (imgp_ex 0 0x80) = 0x80"
    by (simp_all add: ex_defs pax_get_requested_flags_def)
  have a: "pax_elf_setup_flags cfg_ex (H_ex 0x100) s imgp td 0x80000080 = 0x995"
    "pax_elf_setup_flags cfg_ex (H_ex 0x100) s imgp td 0x80 = 0x995" for s imgp td
    by (simp_all add: ex_defs pax_elf_setup_flags_def)
  have k: "PAX_NOTE_PREFER_ACL K_ex = 0x80000000" "proc (imgp_ex x y) = 1" for x y
    by (simp_all add: ex_defs)
  have v: "pax_validate_flags K_ex 0x80000080 = 0" "pax_check_conflicting_modes K_ex 0x80000080 = 0"
    "pax_validate_flags K_ex 0x80 = 0" "pax_check_conflicting_modes K_ex 0x80 = 0"
    "pax_validate_flags K_ex 0x995 = 0" "pax_check_conflicting_modes K_ex 0x995 = 0"
    by (simp_all add: K_ex_def pax_validate_flags_def pax_check_conflicting_modes_def)
  have td: "1 = curthread (s_ex 0x41)" "td_proc (threads (s_ex 0x41) 1) = proc (imgp_ex x y)" for x y
    by (simp_all add: ex_defs)
  have l: "p_threads (procs (s_ex 0x41) 1) = [1, 2]"
    by (simp add: s_ex_def)
  have lg: "procs (pax_log_internal_imgp i f as s) = procs s" for i f as s
    by (simp add: pax_log_internal_imgp_def)
  have "\<exists>s'. pax_elf cfg_ex K_ex (H_ex 0x100) 1 (imgp_ex 0x80000080 0x40) (s_ex 0x41) = Inr (0, s')"
    by (rule pax_elf_commits [OF ovr refl refl _ _ _ _ td]) (simp_all add: m1 a v)
  then obtain s1 where r1:
    "pax_elf cfg_ex K_ex (H_ex 0x100) 1 (imgp_ex 0x80000080 0x40) (s_ex 0x41) = Inr (0, s1)" ..
  from pax_elf_commit_prefer_acl [OF c ovr err r1 refl refl] obtain f1 s1' where
    set1: "pax_set_flags 1 1 f1 (s_ex 0x41) = Inr s1'" and
    s1: "s1 = pax_log_internal_imgp (imgp_ex 0x80000080 0x40)
               ''the process started with non-default hardening settings'' [] s1'" and
    f1: "f1 = 0x80000995" and
    q1: "p_pax (procs s1 1) = f1" "\<forall>t\<in>set (p_threads (procs s1 1)). td_pax (threads s1 t) = f1"
    unfolding m1 a k by auto
  have "p_threads (procs s1 1) = [1, 2]"
    using pax_set_flags_post [OF set1] unfolding s1 lg l by simp
  with q1 f1 have p1: "p_pax (procs s1 1) = 0x80000995 \<and> td_pax (threads s1 1) = 0x80000995 \<and>
      td_pax (threads s1 2) = 0x80000995"
    by simp
  have "\<exists>s'. pax_elf cfg_ex K_ex (H_ex 0x100) 1 (imgp_ex 0 0x80) (s_ex 0x41) = Inr (0, s')"
    by (rule pax_elf_commits [OF ovr refl refl _ _ _ _ td]) (simp_all add: m2 a v)
  then obtain s2 where r2:
    "pax_elf cfg_ex K_ex (H_ex 0x100) 1 (imgp_ex 0 0x80) (s_ex 0x41) = Inr (0, s2)" ..
  from pax_elf_commit_prefer_acl [OF c ovr err r2 refl refl] obtain f2 s2' where
    set2: "pax_set_flags 1 1 f2 (s_ex 0x41) = Inr s2'" and
    s2: "s2 = pax_log_internal_imgp (imgp_ex 0 0x80)
               ''the process started with non-default hardening settings'' [] s2'" and
    f2: "f2 = 0x995" and
    q2: "p_pax (procs s2 1) = f2" "\<forall>t\<in>set (p_threads (procs s2 1)). td_pax (threads s2 t) = f2"
    unfolding m2 a k by auto
  have "p_threads (procs s2 1) = [1, 2]"
    using pax_set_flags_post [OF set2] unfolding s2 lg l by simp
  with q2 f2 have p2: "p_pax (procs s2 1) = 0x995 \<and> td_pax (threads s2 1) = 0x995 \<and>
      td_pax (threads s2 2) = 0x995"
    by simp
  from c ovr err r1 p1 r2 p2 show ?thesis by blast
qed

text \<open>
  Claim C7. With ACL override support compiled in, when the mask \<^verbatim>\<open>pax_get_flags_td\<close>
  reads for the current thread carries the \<^verbatim>\<open>PAX_NOTE_PREFER_ACL\<close> marker, \<^verbatim>\<open>pax_elf\<close>
  returns 0 at once and the kernel memory is the one it started in: whatever the
  image record requests and whatever the hooks would return, no mask of a process
  or thread changes and nothing is logged.
\<close>

theorem pax_elf_acl_short_circuit:
  assumes "PAX_CONTROL_ACL cfg" and "PAX_CONTROL_ACL_OVERRIDE_SUPPORT cfg"
    and "pax_get_flags_td cfg td s = Inr flags"
    and "(flags AND PAX_NOTE_PREFER_ACL K) = PAX_NOTE_PREFER_ACL K"
  shows "pax_elf cfg K H td imgp s = Inr (0, s) \<and> td = curthread s \<and>
         flags = td_pax (threads s td)"
proof -
  have "pax_elf_acl_override cfg K td s = Inr True"
    using assms by (simp add: pax_elf_acl_override_def)
  then have "pax_elf cfg K H td imgp s = Inr (0, s)"
    by (simp add: pax_elf_def)
  moreover have "td = curthread s \<and> flags = td_pax (threads s td)"
    using assms(3) unfolding pax_get_flags_td_Inr_iff by simp
  ultimately show ?thesis by simp
qed

text \<open>
  The theorem where thread 1 runs with the committed mask \<open>0x80000041\<close>: a request
  with unknown and conflicting bits and a defective hardening engine change nothing.
\<close>

theorem pax_elf_acl_short_circuit_witness:
  "PAX_CONTROL_ACL cfg_ex \<and> PAX_CONTROL_ACL_OVERRIDE_SUPPORT cfg_ex \<and>
   pax_get_flags_td cfg_ex 1 (s_ex 0x80000041) = Inr 0x80000041 \<and>
   (0x80000041 AND PAX_NOTE_PREFER_ACL K_ex) = PAX_NOTE_PREFER_ACL K_ex \<and>
   pax_elf cfg_ex K_ex (H_ex 0x1000) 1 (imgp_ex 0x40000000 0xC0) (s_ex 0x80000041)
     = Inr (0, s_ex 0x80000041)"
proof -
  have c: "PAX_CONTROL_ACL cfg_ex" "PAX_CONTROL_ACL_OVERRIDE_SUPPORT cfg_ex"
    by (simp_all add: cfg_ex_def)
  have g: "pax_get_flags_td cfg_ex 1 (s_ex 0x80000041) = Inr 0x80000041"
    by (simp add: ex_defs pax_get_flags_td_def)
  have m: "(0x80000041 AND PAX_NOTE_PREFER_ACL K_ex) = PAX_NOTE_PREFER_ACL K_ex"
    by (simp add: K_ex_def)
  from pax_elf_acl_short_circuit [OF c g m, of "H_ex 0x1000" "imgp_ex 0x40000000 0xC0"] c g m
  show ?thesis by (simp only: simp_thms)
qed

text \<open>
  Claim C8. Both Feature State validators leave a member of their legal set
  unchanged and return true; for every other value they write the force-enabled
  member (\<^verbatim>\<open>PAX_FEATURE_FORCE_ENABLED\<close>, respectively \<^verbatim>\<open>PAX_FEATURE_SIMPLE_ENABLED\<close>) and
  return false. The state they leave is always a legal one.
\<close>

theorem pax_feature_validate_state_normalizes:
  "(state \<in> {PAX_FEATURE_DISABLED, PAX_FEATURE_OPTIN, PAX_FEATURE_OPTOUT, PAX_FEATURE_FORCE_ENABLED}
      \<longrightarrow> pax_feature_validate_state state = (True, state)) \<and>
   (state \<notin> {PAX_FEATURE_DISABLED, PAX_FEATURE_OPTIN, PAX_FEATURE_OPTOUT, PAX_FEATURE_FORCE_ENABLED}
      \<longrightarrow> pax_feature_validate_state state = (False, PAX_FEATURE_FORCE_ENABLED)) \<and>
   snd (pax_feature_validate_state state) \<in>
     {PAX_FEATURE_DISABLED, PAX_FEATURE_OPTIN, PAX_FEATURE_OPTOUT, PAX_FEATURE_FORCE_ENABLED} \<and>
   (state \<in> {PAX_FEATURE_SIMPLE_DISABLED, PAX_FEATURE_SIMPLE_ENABLED}
      \<longrightarrow> pax_feature_simple_validate_state state = (True, state)) \<and>
   (state \<notin> {PAX_FEATURE_SIMPLE_DISABLED, PAX_FEATURE_SIMPLE_ENABLED}
      \<longrightarrow> pax_feature_simple_validate_state state = (False, PAX_FEATURE_SIMPLE_ENABLED)) \<and>
   snd (pax_feature_simple_validate_state state) \<in>
     {PAX_FEATURE_SIMPLE_DISABLED, PAX_FEATURE_SIMPLE_ENABLED} \<and>
   {PAX_FEATURE_DISABLED, PAX_FEATURE_OPTIN, PAX_FEATURE_OPTOUT, PAX_FEATURE_FORCE_ENABLED}
     = {0, 1, 2, 3}"
  by (auto simp: pax_feature_validate_state_def pax_feature_simple_validate_state_def
      PAX_FEATURE_DISABLED_def PAX_FEATURE_OPTIN_def PAX_FEATURE_OPTOUT_def PAX_FEATURE_FORCE_ENABLED_def)

theorem pax_feature_validate_state_normalizes_witness:
  "pax_feature_validate_state 2 = (True, 2) \<and>
   pax_feature_validate_state 7 = (False, 3) \<and>
   pax_feature_validate_state 4294967295 = (False, 3) \<and>
   pax_feature_simple_validate_state 1 = (True, 1) \<and>
   pax_feature_simple_validate_state 2 = (False, 1)"
  using pax_feature_validate_state_normalizes [of 2]
    pax_feature_validate_state_normalizes [of 7]
    pax_feature_validate_state_normalizes [of 4294967295]
    pax_feature_validate_state_normalizes [of 1]
  by (simp add: PAX_FEATURE_DISABLED_def PAX_FEATURE_OPTIN_def PAX_FEATURE_OPTOUT_def
      PAX_FEATURE_FORCE_ENABLED_def PAX_FEATURE_SIMPLE_DISABLED_def PAX_FEATURE_SIMPLE_ENABLED_def)

text \<open>
  Claim C9. \<^verbatim>\<open>pax_init_prison\<close> is the ordered run of the compiled-in initializers
  (ASLR, hardening, no-exec, segv-guard, the \<^verbatim>\<open>COMPAT_FREEBSD32\<close> ASLR variant when
  compiled in, logging), each on the memory the previous one left, stopping after
  the first failure: every initializer that ran before the last one succeeded, and
  when all that ran succeeded, all of them ran. It returns true exactly when every
  initializer of the list succeeded; otherwise it returns false, except for
  \<^verbatim>\<open>prison0\<close>, where the assertion at the label \<^verbatim>\<open>out\<close> fails instead.
\<close>

theorem pax_init_prison_in_order:
  "pax_init_prison cfg I pr opts k =
     (case invoke_in_order (prison_init_order cfg I) pr opts k of (es, k') \<Rightarrow>
        if \<forall>e\<in>set es. e = 0 then Inr (True, k')
        else if pr = prison0
        then Inl (Panic ''Unexpected error during prison0 initialization.'')
        else Inr (False, k')) \<and>
   (case invoke_in_order (prison_init_order cfg I) pr opts k of (es, k') \<Rightarrow>
        (\<forall>e\<in>set (butlast es). e = 0) \<and>
        length es \<le> length (prison_init_order cfg I) \<and>
        ((\<forall>e\<in>set es. e = 0) \<longrightarrow> length es = length (prison_init_order cfg I)))"
proof
  show "pax_init_prison cfg I pr opts k =
     (case invoke_in_order (prison_init_order cfg I) pr opts k of (es, k') \<Rightarrow>
        if \<forall>e\<in>set es. e = 0 then Inr (True, k')
        else if pr = prison0
        then Inl (Panic ''Unexpected error during prison0 initialization.'')
        else Inr (False, k'))"
    by (rule pax_init_prison_eq)
  show "case invoke_in_order (prison_init_order cfg I) pr opts k of (es, k') \<Rightarrow>
        (\<forall>e\<in>set (butlast es). e = 0) \<and>
        length es \<le> length (prison_init_order cfg I) \<and>
        ((\<forall>e\<in>set es. e = 0) \<longrightarrow> length es = length (prison_init_order cfg I))"
    using invoke_in_order_shape [of "prison_init_order cfg I" pr opts k]
    by (cases "invoke_in_order (prison_init_order cfg I) pr opts k") simp
qed

text \<open>
  The theorem on the sample initializers, which record their names as they run.
  When the no-exec initializer fails with 22 in prison 1, the result is false and
  only ASLR, hardening and no-exec ran; in \<^verbatim>\<open>prison0\<close> the same failure panics; when
  all succeed the result is true and the six ran in the order of the source.
\<close>

theorem pax_init_prison_in_order_witness:
  "pax_init_prison cfg_ex (I_ex 22) 1 () [] = Inr (False, [''aslr'', ''hardening'', ''noexec'']) \<and>
   pax_init_prison cfg_ex (I_ex 22) prison0 () []
     = Inl (Panic ''Unexpected error during prison0 initialization.'') \<and>
   pax_init_prison cfg_ex (I_ex 0) prison0 () []
     = Inr (True, [''aslr'', ''hardening'', ''noexec'', ''segvguard'', ''aslr32'', ''log'']) \<and>
   pax_init_prison (cfg_ex\<lparr>COMPAT_FREEBSD32 := False\<rparr>) (I_ex 0) 1 () []
     = Inr (True, [''aslr'', ''hardening'', ''noexec'', ''segvguard'', ''log''])"
  using pax_init_prison_in_order [of cfg_ex "I_ex 22" 1 "()" "[]"]
    pax_init_prison_in_order [of cfg_ex "I_ex 22" prison0 "()" "[]"]
    pax_init_prison_in_order [of cfg_ex "I_ex 0" prison0 "()" "[]"]
    pax_init_prison_in_order [of "cfg_ex\<lparr>COMPAT_FREEBSD32 := False\<rparr>" "I_ex 0" 1 "()" "[]"]
  by (simp add: prison_init_order_def I_ex_def cfg_ex_def prison0_def)

text \<open>
  Claim C10. With jail support compiled in, when \<^verbatim>\<open>vfs_copyopt\<close> finds the parameter
  (returns 0) but its value fails \<^verbatim>\<open>pax_feature_validate_state\<close>, the validator's
  coerced \<^verbatim>\<open>PAX_FEATURE_FORCE_ENABLED\<close> is dropped: \<^verbatim>\<open>pax_handle_prison_param\<close> returns 0
  and leaves \<^verbatim>\<open>*status\<close> as it was, the very result it gives when the parameter is
  absent (\<^verbatim>\<open>ENOENT\<close>). A valid value is stored. The return value is non-zero only
  for an error of \<^verbatim>\<open>vfs_copyopt\<close> other than \<^verbatim>\<open>ENOENT\<close>, which is returned as it is with
  \<^verbatim>\<open>*status\<close> untouched.
\<close>

theorem pax_handle_prison_param_invalid_ignored:
  assumes "PAX_JAIL_SUPPORT cfg"
  shows "(vfs_copyopt opts mib 4 = (0, v) \<and> \<not> fst (pax_feature_validate_state v) \<longrightarrow>
            snd (pax_feature_validate_state v) = PAX_FEATURE_FORCE_ENABLED \<and>
            pax_handle_prison_param cfg K vfs_copyopt opts mib status = (0, status)) \<and>
         (fst (vfs_copyopt opts mib 4) = ENOENT K \<longrightarrow>
            pax_handle_prison_param cfg K vfs_copyopt opts mib status = (0, status)) \<and>
         (vfs_copyopt opts mib 4 = (0, v) \<and> fst (pax_feature_validate_state v) \<and> ENOENT K \<noteq> 0 \<longrightarrow>
            pax_handle_prison_param cfg K vfs_copyopt opts mib status = (0, v)) \<and>
         fst (pax_handle_prison_param cfg K vfs_copyopt opts mib status) =
           (if fst (vfs_copyopt opts mib 4) = ENOENT K then 0 else fst (vfs_copyopt opts mib 4)) \<and>
         (fst (pax_handle_prison_param cfg K vfs_copyopt opts mib status) \<noteq> 0 \<longrightarrow>
            snd (pax_handle_prison_param cfg K vfs_copyopt opts mib status) = status)"
  using assms
  by (auto simp: pax_handle_prison_param_def pax_feature_validate_state_def
      split: prod.splits if_splits)

text \<open>
  The theorem on a sample parameter list, with the inherited status 2 (opt-out):
  the out-of-range value 7 and an absent parameter both give \<open>(0, 2)\<close>, the valid
  value 1 is stored, and a parameter of the wrong length gives the error 22.
\<close>

theorem pax_handle_prison_param_invalid_ignored_witness:
  "PAX_JAIL_SUPPORT cfg_ex \<and>
   vfs_copyopt_ex [(''hardening.pax.aslr.status'', 4, 7)] ''hardening.pax.aslr.status'' 4 = (0, 7) \<and>
   \<not> fst (pax_feature_validate_state 7) \<and>
   pax_handle_prison_param cfg_ex K_ex vfs_copyopt_ex
     [(''hardening.pax.aslr.status'', 4, 7)] ''hardening.pax.aslr.status'' 2 = (0, 2) \<and>
   pax_handle_prison_param cfg_ex K_ex vfs_copyopt_ex
     [] ''hardening.pax.aslr.status'' 2 = (0, 2) \<and>
   pax_handle_prison_param cfg_ex K_ex vfs_copyopt_ex
     [(''hardening.pax.aslr.status'', 4, 1)] ''hardening.pax.aslr.status'' 2 = (0, 1) \<and>
   pax_handle_prison_param cfg_ex K_ex vfs_copyopt_ex
     [(''hardening.pax.aslr.status'', 8, 1)] ''hardening.pax.aslr.status'' 2 = (22, 2)"
proof -
  have c: "PAX_JAIL_SUPPORT cfg_ex" by (simp add: cfg_ex_def)
  have v: "\<not> fst (pax_feature_validate_state 7)" "fst (pax_feature_validate_state 1)"
    by (simp_all add: pax_feature_validate_state_def PAX_FEATURE_DISABLED_def
        PAX_FEATURE_OPTIN_def PAX_FEATURE_OPTOUT_def PAX_FEATURE_FORCE_ENABLED_def)
  have e: "ENOENT K_ex = 2" by (simp add: K_ex_def)
  have l: "vfs_copyopt_ex [(''hardening.pax.aslr.status'', 4, 7)] ''hardening.pax.aslr.status'' 4 = (0, 7)"
    "vfs_copyopt_ex [] ''hardening.pax.aslr.status'' 4 = (2, 0)"
    "vfs_copyopt_ex [(''hardening.pax.aslr.status'', 4, 1)] ''hardening.pax.aslr.status'' 4 = (0, 1)"
    "vfs_copyopt_ex [(''hardening.pax.aslr.status'', 8, 1)] ''hardening.pax.aslr.status'' 4 = (22, 0)"
    by (simp_all add: vfs_copyopt_ex_def)
  have r1: "pax_handle_prison_param cfg_ex K_ex vfs_copyopt_ex
     [(''hardening.pax.aslr.status'', 4, 7)] ''hardening.pax.aslr.status'' 2 = (0, 2)"
    using pax_handle_prison_param_invalid_ignored [OF c, of vfs_copyopt_ex
        "[(''hardening.pax.aslr.status'', 4, 7)]" "''hardening.pax.aslr.status''" 7 K_ex 2] l(1) v(1)
    by simp
  have r2: "pax_handle_prison_param cfg_ex K_ex vfs_copyopt_ex
     [] ''hardening.pax.aslr.status'' 2 = (0, 2)"
    using pax_handle_prison_param_invalid_ignored [OF c, of vfs_copyopt_ex
        "[]" "''hardening.pax.aslr.status''" 0 K_ex 2] l(2) e
    by simp
  have r3: "pax_handle_prison_param cfg_ex K_ex vfs_copyopt_ex
     [(''hardening.pax.aslr.status'', 4, 1)] ''hardening.pax.aslr.status'' 2 = (0, 1)"
    using pax_handle_prison_param_invalid_ignored [OF c, of vfs_copyopt_ex
        "[(''hardening.pax.aslr.status'', 4, 1)]" "''hardening.pax.aslr.status''" 1 K_ex 2] l(3) v(2) e
    by simp
  have r4: "pax_handle_prison_param cfg_ex K_ex vfs_copyopt_ex
     [(''hardening.pax.aslr.status'', 8, 1)] ''hardening.pax.aslr.status'' 2 = (22, 2)"
    using pax_handle_prison_param_invalid_ignored [OF c, of vfs_copyopt_ex
        "[(''hardening.pax.aslr.status'', 8, 1)]" "''hardening.pax.aslr.status''" 0 K_ex 2] l(4) e
    by (simp add: prod_eq_iff)
  from c l(1) v(1) r1 r2 r3 r4 show ?thesis by (simp only: simp_thms)
qed

end
